theory Spec2Isabelle
  imports Complex_Main "HOL-Library.Sublist"
begin

section \<open>Python values, exceptions and strings\<close>

text \<open>
  The backend handles loosely typed JSON data (request bodies, quiz answers, stored
  messages, tool arguments, search payloads). Such a value is a \<open>pyval\<close>; a dict is an
  association list with string keys (distinct keys are assumed, \<open>map_of\<close> reads it),
  a float is carried as a real (floats are only stored, compared with zero and counted,
  never computed with). A string is the list of its code points, each below 256.
  A raised exception is the \<open>Inl\<close> of a sum. Calls to the logger and \<open>print\<close> are left out,
  except where their argument can raise.
\<close>

datatype pyval =
    PNone
  | PBool bool
  | PInt int
  | PFloat real
  | PStr string
  | PDatetime int
  | PList "pyval list"
  | PDict "(string \<times> pyval) list"

datatype value_error =
    Message_must_be_dict
  | Answers_must_be_dict
  | Dimension_mismatch nat nat

datatype exn =
    AttributeError
  | TypeError
  | KeyError
  | IndexError
  | SyntaxError
  | ValueError value_error
  | ValidationError
  | ExternalError string
  | RetryError exn
  | HTTPException nat detail
and detail =
    Message_field_required
  | Error_processing exn

text \<open>\<open>bool(x)\<close>, as used by \<open>if x:\<close>, \<open>not x\<close> and \<open>x or y\<close>.\<close>

fun truthy :: "pyval \<Rightarrow> bool" where
  "truthy PNone = False"
| "truthy (PBool b) = b"
| "truthy (PInt i) = (i \<noteq> 0)"
| "truthy (PFloat x) = (x \<noteq> 0)"
| "truthy (PStr s) = (s \<noteq> [])"
| "truthy (PDatetime t) = True"
| "truthy (PList xs) = (xs \<noteq> [])"
| "truthy (PDict kvs) = (kvs \<noteq> [])"

text \<open>\<open>d.get(k, default)\<close>: only a dict has the method.\<close>

fun py_get :: "pyval \<Rightarrow> string \<Rightarrow> pyval \<Rightarrow> exn + pyval" where
  "py_get (PDict kvs) k d = Inr (case map_of kvs k of None \<Rightarrow> d | Some v \<Rightarrow> v)"
| "py_get v k d = Inl AttributeError"

text \<open>\<open>isinstance(v, dict)\<close>, \<open>k in d\<close> for a dict, and \<open>v[k]\<close> with a string key.\<close>

fun is_dict :: "pyval \<Rightarrow> bool" where
  "is_dict (PDict kvs) = True"
| "is_dict v = False"

fun has_key :: "pyval \<Rightarrow> string \<Rightarrow> bool" where
  "has_key (PDict kvs) k = (map_of kvs k \<noteq> None)"
| "has_key v k = False"

fun py_item :: "pyval \<Rightarrow> string \<Rightarrow> exn + pyval" where
  "py_item (PDict kvs) k = (case map_of kvs k of None \<Rightarrow> Inl KeyError | Some v \<Rightarrow> Inr v)"
| "py_item v k = Inl TypeError"

text \<open>\<open>v[:n]\<close> is evaluated for logging only; it raises on a value that cannot be sliced.\<close>

fun sliceable :: "pyval \<Rightarrow> bool" where
  "sliceable (PStr s) = True"
| "sliceable (PList xs) = True"
| "sliceable v = False"

text \<open>Unhashable values cannot be dict keys: \<open>k in d\<close> and \<open>d[k] = v\<close> raise TypeError.\<close>

fun hashable :: "pyval \<Rightarrow> bool" where
  "hashable (PList xs) = False"
| "hashable (PDict kvs) = False"
| "hashable v = True"

fun join_str :: "string \<Rightarrow> string list \<Rightarrow> string" where
  "join_str sep [] = []"
| "join_str sep [x] = x"
| "join_str sep (x # y # ys) = x @ sep @ join_str sep (y # ys)"

fun is_str :: "pyval \<Rightarrow> bool" where
  "is_str (PStr s) = True"
| "is_str v = False"

fun the_str :: "pyval \<Rightarrow> string" where
  "the_str (PStr s) = s"
| "the_str v = []"

text \<open>
  \<open>sep.join(v)\<close>: \<open>v\<close> is iterated (a list gives its elements, a string its characters,
  a dict its keys) and every element must be a string.
\<close>

fun py_join :: "string \<Rightarrow> pyval \<Rightarrow> exn + string" where
  "py_join sep (PList xs) =
     (if list_all is_str xs then Inr (join_str sep (map the_str xs)) else Inl TypeError)"
| "py_join sep (PStr s) = Inr (join_str sep (map (\<lambda>c. [c]) s))"
| "py_join sep (PDict kvs) = Inr (join_str sep (map fst kvs))"
| "py_join sep v = Inl TypeError"

definition nl :: string where
  "nl = [CHR 0x0A]"

text \<open>
  \<open>str.lower\<close>, \<open>str.strip\<close> and the substring test \<open>kw in text\<close>. Below 256 the
  upper-case letters are A to Z and the code points 192 to 222 without 215, each 32 below
  its lower-case letter; the whitespace characters are 9 to 13, 28 to 32, 133 and 160.
\<close>

definition lower_char :: "char \<Rightarrow> char" where
  "lower_char c =
     (let n = (of_char c :: nat)
      in if (65 \<le> n \<and> n \<le> 90) \<or> (192 \<le> n \<and> n \<le> 222 \<and> n \<noteq> 215)
         then char_of (n + 32) else c)"

definition lower :: "string \<Rightarrow> string" where
  "lower s = map lower_char s"

definition is_space :: "char \<Rightarrow> bool" where
  "is_space c = ((of_char c :: nat) \<in> {9, 10, 11, 12, 13, 28, 29, 30, 31, 32, 133, 160})"

definition strip :: "string \<Rightarrow> string" where
  "strip s = rev (dropWhile is_space (rev (dropWhile is_space s)))"

fun str_in :: "string \<Rightarrow> string \<Rightarrow> bool" where
  "str_in kw [] = (kw = [])"
| "str_in kw (c # cs) = (prefix kw (c # cs) \<or> str_in kw cs)"

section \<open>Session store (memory\_store.py)\<close>

text \<open>
  \<open>MemoryStore\<close> holds two dicts: \<open>_store\<close> from session id to the list of messages and
  \<open>_quiz_answers\<close> from session id to the stored answers. Python holds equal numbers
  under one key (\<open>True\<close>, \<open>1\<close> and \<open>1.0\<close> are the same key): \<open>dict_key\<close> gives the
  representative under which a hashable value is stored and looked up.
\<close>

fun dict_key :: "pyval \<Rightarrow> pyval" where
  "dict_key (PBool b) = PInt (if b then 1 else 0)"
| "dict_key (PFloat x) = (if x = of_int \<lfloor>x\<rfloor> then PInt \<lfloor>x\<rfloor> else PFloat x)"
| "dict_key v = v"

record memory_store =
  m_store :: "pyval \<rightharpoonup> pyval list"
  m_quiz_answers :: "pyval \<rightharpoonup> pyval"

definition MemoryStore :: memory_store where
  "MemoryStore = \<lparr>m_store = Map.empty, m_quiz_answers = Map.empty\<rparr>"

text \<open>\<open>create_session\<close>; the fresh \<open>str(uuid.uuid4())\<close> is passed in.\<close>

definition create_session :: "string \<Rightarrow> memory_store \<Rightarrow> pyval \<times> memory_store" where
  "create_session uuid ms = (PStr uuid, ms\<lparr>m_store := (m_store ms)(PStr uuid \<mapsto> [])\<rparr>)"

text \<open>
  \<open>add_message\<close>: the missing session is created first, the message is validated after
  that, appended, and the debug line then slices the content. Every exception is logged
  and raised again.
\<close>

definition add_message :: "pyval \<Rightarrow> pyval \<Rightarrow> memory_store \<Rightarrow> (exn + unit) \<times> memory_store" where
  "add_message session_id message ms =
     (if \<not> hashable session_id then (Inl TypeError, ms)
      else
        let ms1 = (if m_store ms (dict_key session_id) = None
                   then ms\<lparr>m_store := (m_store ms)(dict_key session_id \<mapsto> [])\<rparr>
                   else ms)
        in if \<not> is_dict message \<or> \<not> has_key message ''role'' \<or> \<not> has_key message ''content''
           then (Inl (ValueError Message_must_be_dict), ms1)
           else
             let ms2 = ms1\<lparr>m_store := (m_store ms1)
                         (dict_key session_id \<mapsto> (case m_store ms1 (dict_key session_id) of
                                             None \<Rightarrow> [] | Some turns \<Rightarrow> turns) @ [message])\<rparr>
             in (case py_item message ''content'' of
                   Inl e \<Rightarrow> (Inl e, ms2)
                 | Inr c \<Rightarrow> if sliceable c then (Inr (), ms2) else (Inl TypeError, ms2)))"

text \<open>\<open>get_messages\<close>: every exception is swallowed into the empty list.\<close>

definition get_messages :: "pyval \<Rightarrow> memory_store \<Rightarrow> pyval list" where
  "get_messages session_id ms =
     (if \<not> hashable session_id then []
      else case m_store ms (dict_key session_id) of None \<Rightarrow> [] | Some turns \<Rightarrow> turns)"

definition clear_session :: "pyval \<Rightarrow> memory_store \<Rightarrow> (exn + unit) \<times> memory_store" where
  "clear_session session_id ms =
     (if \<not> hashable session_id then (Inl TypeError, ms)
      else if m_store ms (dict_key session_id) \<noteq> None
        then (Inr (), ms\<lparr>m_store := (m_store ms)(dict_key session_id \<mapsto> [])\<rparr>)
        else (Inr (), ms))"

definition store_quiz_answers :: "pyval \<Rightarrow> pyval \<Rightarrow> memory_store \<Rightarrow> (exn + unit) \<times> memory_store" where
  "store_quiz_answers session_id answers ms =
     (if \<not> is_dict answers then (Inl (ValueError Answers_must_be_dict), ms)
      else if \<not> hashable session_id then (Inl TypeError, ms)
      else (Inr (), ms\<lparr>m_quiz_answers := (m_quiz_answers ms)(dict_key session_id \<mapsto> answers)\<rparr>))"

definition get_quiz_answers :: "pyval \<Rightarrow> memory_store \<Rightarrow> pyval" where
  "get_quiz_answers session_id ms =
     (if \<not> hashable session_id then PNone
      else case m_quiz_answers ms (dict_key session_id) of None \<Rightarrow> PNone | Some a \<Rightarrow> a)"

section \<open>Prompt builder (chat\_route.py)\<close>

definition base_prompt :: string where
  "base_prompt =
     ''You are a helpful and friendly supplement recommendation assistant. '' @ nl @
     ''Your goal is to help customers find the right supplements based on their health goals and symptoms.'' @ nl @
     ''When appropriate, suggest relevant supplements from our catalog.'' @ nl @
     ''Be concise, friendly, and focus on being helpful.''"

text \<open>One \<open>if v: context.append(f"<label>{', '.join(v)}")\<close> step of the builder.\<close>

definition context_line :: "string \<Rightarrow> pyval \<Rightarrow> exn + string list" where
  "context_line label v =
     (if truthy v
      then (case py_join '', '' v of Inl e \<Rightarrow> Inl e | Inr j \<Rightarrow> Inr [label @ j])
      else Inr [])"

definition build_system_prompt :: "pyval \<Rightarrow> exn + string" where
  "build_system_prompt quiz_answers =
     (if truthy quiz_answers then
        (case py_get quiz_answers ''health_goals'' (PList []) of Inl e \<Rightarrow> Inl e
         | Inr health_goals \<Rightarrow>
        (case py_get quiz_answers ''symptoms'' (PList []) of Inl e \<Rightarrow> Inl e
         | Inr symptoms \<Rightarrow>
        (case py_get quiz_answers ''preferences'' (PDict []) of Inl e \<Rightarrow> Inl e
         | Inr preferences \<Rightarrow>
        (case context_line ''Health goals: '' health_goals of Inl e \<Rightarrow> Inl e
         | Inr c1 \<Rightarrow>
        (case context_line ''Current symptoms: '' symptoms of Inl e \<Rightarrow> Inl e
         | Inr c2 \<Rightarrow>
        (case (if truthy preferences
               then (case py_get preferences ''dietary'' (PList []) of Inl e \<Rightarrow> Inl e
                     | Inr dietary \<Rightarrow> context_line ''Dietary preferences: '' dietary)
               else Inr []) of Inl e \<Rightarrow> Inl e
         | Inr c3 \<Rightarrow>
           let context = c1 @ c2 @ c3
           in if context \<noteq> []
              then Inr (base_prompt @ nl @ nl @ ''Additional context:'' @ nl @ join_str nl context)
              else Inr base_prompt))))))
      else Inr base_prompt)"

section \<open>External collaborators\<close>

text \<open>
  The generation endpoint answers with a list of choices, each holding a message with an
  optional text and an optional function call (a name and the argument payload as text).
\<close>

record function_call =
  fc_name :: string
  fc_arguments :: string

record llm_message =
  msg_content :: "string option"
  msg_function_call :: "function_call option"

text \<open>
  An entry of the message list sent to the endpoint: a role/content dict, the model's own
  message object appended as it is, or the function-result dict.
\<close>

datatype api_msg =
    Role_content pyval pyval
  | Model_message llm_message
  | Function_result string string

record hit =
  hit_id :: pyval
  hit_score :: real
  hit_payload :: pyval

text \<open>
  The arguments \<open>query_qdrant\<close> passes to \<open>Product\<close>; the extended attributes (category,
  tags, variants, ingredients, nutritional\_info, allergens, dietary\_info, rating,
  review\_count, metadata) are always passed as None and are not listed.
\<close>

record product =
  p_id :: string
  p_name :: pyval
  p_description :: pyval
  p_price :: pyval
  p_currency :: string
  p_image_url :: pyval
  p_product_url :: pyval
  p_score :: real
  p_brand :: string

text \<open>Every call that leaves the process, and every pause of the retry loop, in order.\<close>

datatype call =
    Generate "api_msg list" bool
  | Embed pyval
  | Get_collection string
  | Search string "real list" int "(string \<times> pyval) list option"
  | Sleep nat

text \<open>
  The collaborators are parameters. Each answer may depend on the calls made so far, so
  that a retried call can be answered differently. \<open>w_create\<close> is
  \<open>client.chat.completions.create\<close> (the flag says whether the function is declared),
  \<open>w_embed_text\<close> is \<open>Embedder().embed_text\<close>, \<open>w_get_collection\<close> gives the vector
  size \<open>config.params.vectors.size\<close> of the collection, \<open>w_search\<close> is \<open>client.search\<close>,
  \<open>w_eval\<close> and \<open>w_str\<close> are Python's \<open>eval\<close> and \<open>str\<close>, \<open>w_Product\<close> is the
  validating constructor of the \<open>Product\<close> model, \<open>w_str_products\<close> is \<open>str\<close> on a list
  of products, \<open>w_uuid4\<close> and \<open>w_utcnow\<close> are the n-th identifier and clock reading.
\<close>

record world =
  w_create :: "call list \<Rightarrow> api_msg list \<Rightarrow> bool \<Rightarrow> exn + llm_message list"
  w_embed_text :: "call list \<Rightarrow> pyval \<Rightarrow> exn + real list"
  w_get_collection :: "call list \<Rightarrow> string \<Rightarrow> exn + nat"
  w_search :: "call list \<Rightarrow> real list \<Rightarrow> int \<Rightarrow> (string \<times> pyval) list option \<Rightarrow> exn + hit list"
  w_eval :: "string \<Rightarrow> exn + pyval"
  w_str :: "pyval \<Rightarrow> string"
  w_Product :: "product \<Rightarrow> exn + product"
  w_str_products :: "product list \<Rightarrow> string"
  w_uuid4 :: "nat \<Rightarrow> string"
  w_utcnow :: "nat \<Rightarrow> int"

section \<open>Vector search adapter (my\_qdrant\_utils.py)\<close>

definition collection_name :: string where
  "collection_name = ''brightside-products''"

text \<open>The body of the per-hit \<open>try\<close>: the payload reads and the \<open>Product\<close> construction.\<close>

definition to_product :: "world \<Rightarrow> hit \<Rightarrow> exn + product" where
  "to_product w h =
     (case py_get (hit_payload h) ''title'' (PStr []) of Inl e \<Rightarrow> Inl e
      | Inr title \<Rightarrow>
     (case py_get (hit_payload h) ''description'' (PStr []) of Inl e \<Rightarrow> Inl e
      | Inr description \<Rightarrow>
     (case py_get (hit_payload h) ''price'' (PStr ''0.00'') of Inl e \<Rightarrow> Inl e
      | Inr price \<Rightarrow>
     (case py_get (hit_payload h) ''image'' (PStr []) of Inl e \<Rightarrow> Inl e
      | Inr image_url \<Rightarrow>
     (case py_get (hit_payload h) ''link'' (PStr []) of Inl e \<Rightarrow> Inl e
      | Inr link \<Rightarrow>
     (case py_get (hit_payload h) ''id'' (PStr []) of Inl e \<Rightarrow> Inl e
      | Inr ident \<Rightarrow>
        w_Product w \<lparr>p_id = w_str w ident, p_name = title, p_description = description,
          p_price = price, p_currency = ''USD'', p_image_url = image_url, p_product_url = link,
          p_score = hit_score h, p_brand = ''Brightside''\<rparr>))))))"

text \<open>The conversion loop: a hit whose conversion raises is logged and skipped.\<close>

fun convert_hits :: "world \<Rightarrow> hit list \<Rightarrow> product list" where
  "convert_hits w [] = []"
| "convert_hits w (h # hs) =
     (case to_product w h of
        Inl e \<Rightarrow> convert_hits w hs
      | Inr p \<Rightarrow> p # convert_hits w hs)"

text \<open>
  The search filter: one equality condition per entry of \<open>filters\<close>. \<open>MatchValue\<close> of the
  qdrant client takes a bool, an int or a string and refuses any other value.
\<close>

fun match_value :: "pyval \<Rightarrow> bool" where
  "match_value (PBool b) = True"
| "match_value (PInt i) = True"
| "match_value (PStr s) = True"
| "match_value v = False"

definition build_filter :: "pyval \<Rightarrow> exn + (string \<times> pyval) list option" where
  "build_filter filters =
     (if truthy filters
      then (case filters of
              PDict kvs \<Rightarrow>
                if list_all (\<lambda>kv. match_value (snd kv)) kvs then Inr (Some kvs)
                else Inl ValidationError
            | _ \<Rightarrow> Inl AttributeError)
      else Inr None)"

text \<open>
  \<open>query_qdrant\<close>. The outer handler logs and raises again, so an exception leaves the
  function unchanged. The unused \<open>client_id\<close> parameter is left out.
\<close>

definition query_qdrant ::
  "world \<Rightarrow> real list \<Rightarrow> int \<Rightarrow> pyval \<Rightarrow> call list \<Rightarrow> (exn + product list) \<times> call list" where
  "query_qdrant w query_vector limit filters tr =
     (let tr1 = tr @ [Get_collection collection_name]
      in case w_get_collection w tr collection_name of
           Inl e \<Rightarrow> (Inl e, tr1)
         | Inr collection_dim \<Rightarrow>
             if collection_dim \<noteq> length query_vector
             then (Inl (ValueError (Dimension_mismatch collection_dim (length query_vector))), tr1)
             else
               (case build_filter filters of
                  Inl e \<Rightarrow> (Inl e, tr1)
                | Inr search_filter \<Rightarrow>
                    let tr2 = tr1 @ [Search collection_name query_vector limit search_filter]
                    in (case w_search w tr1 query_vector limit search_filter of
                          Inl e \<Rightarrow> (Inl e, tr2)
                        | Inr search_results \<Rightarrow> (Inr (convert_hits w search_results), tr2))))"

section \<open>Orchestrator (chat\_llm.py)\<close>

definition DEFAULT_SYSTEM_PROMPT :: string where
  "DEFAULT_SYSTEM_PROMPT =
     ''You are a helpful and friendly supplement recommendation assistant. '' @ nl @
     ''Your goal is to help customers find the right supplements based on their health goals and symptoms.'' @ nl @
     ''When appropriate, suggest relevant supplements from our catalog.'' @ nl @
     ''Be concise, friendly, and focus on being helpful.''"

text \<open>\<open>for msg in v\<close>: what iterating a value yields.\<close>

fun py_iter :: "pyval \<Rightarrow> exn + pyval list" where
  "py_iter (PList xs) = Inr xs"
| "py_iter (PStr s) = Inr (map (\<lambda>c. PStr [c]) s)"
| "py_iter (PDict kvs) = Inr (map (\<lambda>kv. PStr (fst kv)) kvs)"
| "py_iter v = Inl TypeError"

definition history_entry :: "pyval \<Rightarrow> exn + api_msg" where
  "history_entry msg =
     (case py_item msg ''role'' of Inl e \<Rightarrow> Inl e
      | Inr r \<Rightarrow> (case py_item msg ''content'' of Inl e \<Rightarrow> Inl e
                  | Inr c \<Rightarrow> Inr (Role_content r c)))"

fun format_history :: "pyval list \<Rightarrow> exn + api_msg list" where
  "format_history [] = Inr []"
| "format_history (msg # rest) =
     (case history_entry msg of Inl e \<Rightarrow> Inl e
      | Inr m \<Rightarrow> (case format_history rest of Inl e \<Rightarrow> Inl e
                  | Inr ms \<Rightarrow> Inr (m # ms)))"

text \<open>\<open>_format_messages\<close>.\<close>

definition format_messages :: "pyval \<Rightarrow> pyval \<Rightarrow> pyval \<Rightarrow> exn + api_msg list" where
  "format_messages message chat_history system_prompt =
     (case (if truthy chat_history
            then (case py_iter chat_history of Inl e \<Rightarrow> Inl e | Inr msgs \<Rightarrow> format_history msgs)
            else Inr []) of
        Inl e \<Rightarrow> Inl e
      | Inr history \<Rightarrow>
          Inr ([Role_content (PStr ''system'')
                  (if truthy system_prompt then system_prompt else PStr DEFAULT_SYSTEM_PROMPT)]
               @ history
               @ [Role_content (PStr ''user'') message]))"

text \<open>
  \<open>_handle_function_call\<close>. The question is read outside the \<open>try\<close>; the embedding and
  the search are inside it, and its handler logs the exception and returns the empty list.
\<close>

definition handle_function_call ::
  "world \<Rightarrow> string \<Rightarrow> pyval \<Rightarrow> call list \<Rightarrow> (exn + product list) \<times> call list" where
  "handle_function_call w function_name function_args tr =
     (if function_name = ''query_supplements'' then
        (case py_get function_args ''question'' PNone of
           Inl e \<Rightarrow> (Inl e, tr)
         | Inr question \<Rightarrow>
             if \<not> truthy question then (Inr [], tr)
             else
               let tr1 = tr @ [Embed question]
               in (case w_embed_text w tr question of
                     Inl e \<Rightarrow> (Inr [], tr1)
                   | Inr query_vector \<Rightarrow>
                       (case query_qdrant w query_vector 3 PNone tr1 of
                          (Inl e, tr2) \<Rightarrow> (Inr [], tr2)
                        | (Inr products, tr2) \<Rightarrow> (Inr products, tr2))))
      else (Inr [], tr))"

record chat_response =
  role :: string
  content :: string
  recommend :: bool
  products :: "product list option"
  function_called :: bool
  function_name :: "string option"

definition recommend_keywords :: "string list" where
  "recommend_keywords = [''recommend'', ''suggest'', ''try'', ''consider'', ''look at'']"

text \<open>\<open>bool(products) or any(keyword in generated_text.lower() for keyword in [...])\<close>.\<close>

definition should_recommend :: "product list option \<Rightarrow> string \<Rightarrow> bool" where
  "should_recommend prods generated_text =
     ((case prods of None \<Rightarrow> False | Some ps \<Rightarrow> ps \<noteq> [])
      \<or> list_ex (\<lambda>keyword. str_in keyword (lower generated_text)) recommend_keywords)"

definition make_response ::
  "string \<Rightarrow> product list option \<Rightarrow> bool \<Rightarrow> string option \<Rightarrow> chat_response" where
  "make_response generated_text prods called name =
     \<lparr>role = ''assistant'', content = generated_text,
      recommend = should_recommend prods generated_text,
      products = prods, function_called = called, function_name = name\<rparr>"

text \<open>
  The body of \<open>generate_chat_response\<close>, one attempt. Its handler logs the exception and
  raises it again. The unused \<open>client_id\<close> parameter is left out.
\<close>

definition generate_chat_response_body ::
  "world \<Rightarrow> pyval \<Rightarrow> pyval \<Rightarrow> pyval \<Rightarrow> call list \<Rightarrow> (exn + chat_response) \<times> call list" where
  "generate_chat_response_body w message chat_history system_prompt tr =
     (if \<not> sliceable message then (Inl TypeError, tr)
      else case format_messages message chat_history system_prompt of
        Inl e \<Rightarrow> (Inl e, tr)
      | Inr messages \<Rightarrow>
          let tr1 = tr @ [Generate messages True]
          in (case w_create w tr messages True of
                Inl e \<Rightarrow> (Inl e, tr1)
              | Inr [] \<Rightarrow> (Inl IndexError, tr1)
              | Inr (reply # others) \<Rightarrow>
                  (case msg_function_call reply of
                     Some fc \<Rightarrow>
                       (case w_eval w (fc_arguments fc) of
                          Inl e \<Rightarrow> (Inl e, tr1)
                        | Inr function_args \<Rightarrow>
                            (case handle_function_call w (fc_name fc) function_args tr1 of
                               (Inl e, tr2) \<Rightarrow> (Inl e, tr2)
                             | (Inr prods, tr2) \<Rightarrow>
                                 let messages2 = messages @ [Model_message reply,
                                       Function_result (fc_name fc) (w_str_products w prods)];
                                     tr3 = tr2 @ [Generate messages2 False]
                                 in (case w_create w tr2 messages2 False of
                                       Inl e \<Rightarrow> (Inl e, tr3)
                                     | Inr [] \<Rightarrow> (Inl IndexError, tr3)
                                     | Inr (final # others2) \<Rightarrow>
                                         (case msg_content final of
                                            None \<Rightarrow> (Inl AttributeError, tr3)
                                          | Some text \<Rightarrow>
                                              (Inr (make_response (strip text) (Some prods)
                                                      True (Some (fc_name fc))), tr3)))))
                   | None \<Rightarrow>
                       (case msg_content reply of
                          None \<Rightarrow> (Inl AttributeError, tr1)
                        | Some text \<Rightarrow>
                            (Inr (make_response (strip text) None False None), tr1)))))"

text \<open>
  The decorator \<open>@retry(stop=stop_after_attempt(3), wait=wait_exponential(multiplier=1,
  min=4, max=10))\<close> of the tenacity library, with its defaults: every exception is
  retried, and when the third attempt fails a \<open>RetryError\<close> holding the last exception is
  raised. \<open>wait_exponential\<close> gives the seconds slept after failed attempt \<open>n\<close>.
\<close>

definition wait_exponential :: "nat \<Rightarrow> nat" where
  "wait_exponential n = max 4 (min (1 * 2 ^ (n - 1)) 10)"

function retrying ::
  "nat \<Rightarrow> (call list \<Rightarrow> (exn + 'a) \<times> call list) \<Rightarrow> call list \<Rightarrow> (exn + 'a) \<times> call list" where
  "retrying attempt_number f tr =
     (case f tr of
        (Inr r, tr') \<Rightarrow> (Inr r, tr')
      | (Inl e, tr') \<Rightarrow>
          if attempt_number \<ge> 3 then (Inl (RetryError e), tr')
          else retrying (Suc attempt_number) f (tr' @ [Sleep (wait_exponential attempt_number)]))"
  by pat_completeness auto
termination
  by (relation "measure (\<lambda>(n, f, tr). 3 - n)") auto

definition generate_chat_response ::
  "world \<Rightarrow> pyval \<Rightarrow> pyval \<Rightarrow> pyval \<Rightarrow> call list \<Rightarrow> (exn + chat_response) \<times> call list" where
  "generate_chat_response w message chat_history system_prompt tr =
     retrying 1 (generate_chat_response_body w message chat_history system_prompt) tr"

section \<open>Chat route (chat\_route.py)\<close>

text \<open>
  The process-wide state: the memory store, the calls made so far, and how many
  identifiers and clock readings have been drawn.
\<close>

record system =
  memory :: memory_store
  trace :: "call list"
  uuid_count :: nat
  clock :: nat

text \<open>
  Modelled from the spec: the \<open>ChatMessage\<close> model of models.py, which is not among the
  sources. A turn has a role, a text content and a timestamp; a content that is not
  text is refused. The result is the dict that \<open>.dict()\<close> gives.
\<close>

definition ChatMessage :: "string \<Rightarrow> pyval \<Rightarrow> int \<Rightarrow> exn + pyval" where
  "ChatMessage r c timestamp =
     (if is_str c
      then Inr (PDict [(''role'', PStr r), (''content'', c), (''timestamp'', PDatetime timestamp)])
      else Inl ValidationError)"

text \<open>
  Modelled from the spec: the defaults of the \<open>ChatResponse\<close> model of models.py, which
  is not among the sources. The route builds its apology with role, content and
  recommend only; the items and the tool name are optional and the tool flag is false.
\<close>

definition fallback_response :: chat_response where
  "fallback_response =
     \<lparr>role = ''assistant'',
      content = ''I'm sorry, I'm having trouble generating a response right now.'',
      recommend = False, products = None, function_called = False, function_name = None\<rparr>"

definition dict_get :: "(string \<times> pyval) list \<Rightarrow> string \<Rightarrow> pyval" where
  "dict_get kvs k = (case map_of kvs k of None \<Rightarrow> PNone | Some v \<Rightarrow> v)"

text \<open>
  The message of a request body: the \<open>message\<close> field, or else the content of the last
  entry of a non-empty \<open>messages\<close> list.
\<close>

definition request_message :: "(string \<times> pyval) list \<Rightarrow> exn + pyval" where
  "request_message kvs =
     (let message = dict_get kvs ''message''
      in if \<not> truthy message \<and> map_of kvs ''messages'' \<noteq> None
         then (case map_of kvs ''messages'' of
                 Some (PList msgs) \<Rightarrow>
                   if length msgs > 0 then py_get (last msgs) ''content'' PNone else Inr message
               | _ \<Rightarrow> Inr message)
         else Inr message)"

text \<open>The body of the route's outer \<open>try\<close>, on the parsed JSON body.\<close>

definition chat_body :: "world \<Rightarrow> pyval \<Rightarrow> system \<Rightarrow> (exn + chat_response) \<times> system" where
  "chat_body w data s =
     (case data of
        PDict kvs \<Rightarrow>
          (let session_id = dict_get kvs ''session_id'';
               quiz_answers = dict_get kvs ''quiz_answers''
           in case request_message kvs of
             Inl e \<Rightarrow> (Inl e, s)
           | Inr message \<Rightarrow>
               if \<not> truthy message
               then (Inl (HTTPException 422 Message_field_required), s)
               else
                 let s1 = s\<lparr>clock := Suc (clock s)\<rparr>
                 in (case ChatMessage ''user'' message (w_utcnow w (clock s)) of
                   Inl e \<Rightarrow> (Inl e, s1)
                 | Inr user_message \<Rightarrow>
                     let (sid, s2) =
                           (if truthy session_id then (session_id, s1)
                            else (let (new_id, m) = create_session (w_uuid4 w (uuid_count s1)) (memory s1)
                                  in (new_id, s1\<lparr>memory := m, uuid_count := Suc (uuid_count s1)\<rparr>)))
                     in (case add_message sid user_message (memory s2) of
                       (Inl e, m3) \<Rightarrow> (Inl e, s2\<lparr>memory := m3\<rparr>)
                     | (Inr u, m3) \<Rightarrow>
                         (case (if truthy quiz_answers
                                then store_quiz_answers sid quiz_answers m3
                                else (Inr (), m3)) of
                            (Inl e, m4) \<Rightarrow> (Inl e, s2\<lparr>memory := m4\<rparr>)
                          | (Inr u', m4) \<Rightarrow>
                              let s4 = s2\<lparr>memory := m4\<rparr>;
                                  chat_hist = get_messages sid m4;
                                  stored_quiz_answers = get_quiz_answers sid m4
                              in (case build_system_prompt stored_quiz_answers of
                                Inl e \<Rightarrow> (Inl e, s4)
                              | Inr system_prompt \<Rightarrow>
                                  let (r, tr5) = generate_chat_response w message (PList chat_hist)
                                                   (PStr system_prompt) (trace s4);
                                      response = (case r of Inl e \<Rightarrow> fallback_response
                                                  | Inr resp \<Rightarrow> resp);
                                      s5 = s4\<lparr>trace := tr5, clock := Suc (clock s4)\<rparr>
                                  in (case ChatMessage ''assistant'' (PStr (content response))
                                             (w_utcnow w (clock s4)) of
                                    Inl e \<Rightarrow> (Inl e, s5)
                                  | Inr assistant_message \<Rightarrow>
                                      (case add_message sid assistant_message (memory s5) of
                                         (Inl e, m6) \<Rightarrow> (Inl e, s5\<lparr>memory := m6\<rparr>)
                                       | (Inr u'', m6) \<Rightarrow> (Inr response, s5\<lparr>memory := m6\<rparr>))))))))
      | _ \<Rightarrow> (Inl AttributeError, s))"

text \<open>
  \<open>chat\<close>: the outer handler catches every exception of the body, the 422 of the missing
  message included, and raises a 500 whose detail quotes it.
\<close>

definition chat :: "world \<Rightarrow> pyval \<Rightarrow> system \<Rightarrow> (exn + chat_response) \<times> system" where
  "chat w data s =
     (case chat_body w data s of
        (Inl e, s') \<Rightarrow> (Inl (HTTPException 500 (Error_processing e)), s')
      | (Inr response, s') \<Rightarrow> (Inr response, s'))"

section \<open>Specification-side notions\<close>

text \<open>
  A keyword occurs in a text as a case-insensitive substring when some contiguous part of
  the text equals the keyword up to letter case.
\<close>

definition ci_substring :: "string \<Rightarrow> string \<Rightarrow> bool" where
  "ci_substring kw text = (\<exists>part. sublist part text \<and> lower part = lower kw)"

text \<open>
  A context field holds the list of texts \<open>xs\<close>: the key is absent and \<open>xs\<close> is empty, or
  the key holds exactly that list. The dietary list sits one level down, under
  \<open>preferences\<close>.
\<close>

definition list_field :: "(string \<times> pyval) list \<Rightarrow> string \<Rightarrow> string list \<Rightarrow> bool" where
  "list_field ctx k xs =
     (case map_of ctx k of None \<Rightarrow> xs = [] | Some v \<Rightarrow> v = PList (map PStr xs))"

definition dietary_field :: "(string \<times> pyval) list \<Rightarrow> string list \<Rightarrow> bool" where
  "dietary_field ctx xs =
     (case map_of ctx ''preferences'' of
        None \<Rightarrow> xs = []
      | Some (PDict prefs) \<Rightarrow> list_field prefs ''dietary'' xs
      | Some v \<Rightarrow> False)"

text \<open>
  The rendering the specification describes: one labelled, comma-joined line per
  non-empty category, in the fixed order, and the block that puts each on its own line.
\<close>

definition labelled_line :: "string \<Rightarrow> string list \<Rightarrow> string list" where
  "labelled_line label xs = (if xs = [] then [] else [label @ join_str '', '' xs])"

definition rendered_lines :: "string list \<Rightarrow> string list \<Rightarrow> string list \<Rightarrow> string list" where
  "rendered_lines health_goals symptoms dietary =
     labelled_line ''Health goals: '' health_goals
     @ labelled_line ''Current symptoms: '' symptoms
     @ labelled_line ''Dietary preferences: '' dietary"

definition rendered_block :: "string list \<Rightarrow> string" where
  "rendered_block ls =
     (if ls = [] then [] else nl @ nl @ ''Additional context:'' @ nl @ join_str nl ls)"

section \<open>A scripted world for concrete runs\<close>

text \<open>
  A world whose collaborators give fixed answers: \<open>first\<close> to the generation call that
  declares the function, \<open>final\<close> to the one that does not, \<open>args\<close> for the evaluated
  argument payload, \<open>emb\<close> for the embedding, \<open>vsize\<close> for the collection's vector size and
  \<open>hits\<close> for the search.
\<close>

definition str_of :: "pyval \<Rightarrow> string" where
  "str_of v = (case v of PStr s \<Rightarrow> s | PNone \<Rightarrow> ''None'' | _ \<Rightarrow> ''<value>'')"

definition scripted ::
  "(exn + llm_message list) \<Rightarrow> (exn + pyval) \<Rightarrow> (exn + real list) \<Rightarrow> (exn + nat)
   \<Rightarrow> (exn + hit list) \<Rightarrow> (exn + llm_message list) \<Rightarrow> world" where
  "scripted first args emb vsize hits final =
     \<lparr>w_create = (\<lambda>tr msgs declared. if declared then first else final),
      w_embed_text = (\<lambda>tr q. emb),
      w_get_collection = (\<lambda>tr c. vsize),
      w_search = (\<lambda>tr qv l f. hits),
      w_eval = (\<lambda>a. args),
      w_str = str_of,
      w_Product = Inr,
      w_str_products = (\<lambda>ps. if ps = [] then ''[]'' else ''[Product(...)]''),
      w_uuid4 = (\<lambda>n. ''session-'' @ replicate n (CHR ''i'')),
      w_utcnow = int\<rparr>"

definition text_reply :: "string \<Rightarrow> llm_message" where
  "text_reply t = \<lparr>msg_content = Some t, msg_function_call = None\<rparr>"

definition call_reply :: "string \<Rightarrow> string \<Rightarrow> llm_message" where
  "call_reply n a =
     \<lparr>msg_content = None, msg_function_call = Some \<lparr>fc_name = n, fc_arguments = a\<rparr>\<rparr>"

definition system0 :: system where
  "system0 = \<lparr>memory = MemoryStore, trace = [], uuid_count = 0, clock = 0\<rparr>"

section \<open>Prompt builder: properties\<close>

lemma context_line_strs:
  "context_line label (PList (map PStr xs)) = Inr (labelled_line label xs)"
  by (simp add: context_line_def labelled_line_def list_all_iff comp_def)

lemma list_field_get:
  "list_field ctx k xs \<Longrightarrow>
     context_line label (case map_of ctx k of None \<Rightarrow> PList [] | Some v \<Rightarrow> v)
       = Inr (labelled_line label xs)"
  by (auto simp: list_field_def context_line_strs split: option.splits)
     (simp add: context_line_def labelled_line_def)

text \<open>
  C7: \<open>build_system_prompt\<close> returns the base instruction unchanged for an absent or an
  empty context. For a context whose health goals, symptoms and dietary preferences (the
  last under the preferences key) are lists of texts, it returns the base instruction
  followed by the rendered block: a "Health goals", a "Current symptoms" and a "Dietary
  preferences" line, in this order, each comma-joined and on its own line, and each left
  out when its list is empty or absent.
\<close>

theorem build_system_prompt_renders_context:
  "build_system_prompt PNone = Inr base_prompt
   \<and> build_system_prompt (PDict []) = Inr base_prompt
   \<and> (list_field ctx ''health_goals'' hg \<longrightarrow> list_field ctx ''symptoms'' sy
        \<longrightarrow> dietary_field ctx di \<longrightarrow>
        build_system_prompt (PDict ctx)
          = Inr (base_prompt @ rendered_block (rendered_lines hg sy di)))"
proof (intro conjI impI)
  show "build_system_prompt PNone = Inr base_prompt"
    by (simp add: build_system_prompt_def)
  show "build_system_prompt (PDict []) = Inr base_prompt"
    by (simp add: build_system_prompt_def)
next
  assume hg: "list_field ctx ''health_goals'' hg"
    and sy: "list_field ctx ''symptoms'' sy"
    and di: "dietary_field ctx di"
  have c3: "(if truthy (case map_of ctx ''preferences'' of None \<Rightarrow> PDict [] | Some v \<Rightarrow> v)
             then (case py_get (case map_of ctx ''preferences'' of
                                  None \<Rightarrow> PDict [] | Some v \<Rightarrow> v) ''dietary'' (PList []) of
                     Inl e \<Rightarrow> Inl e
                   | Inr dietary \<Rightarrow> context_line ''Dietary preferences: '' dietary)
             else Inr []) = Inr (labelled_line ''Dietary preferences: '' di)"
  proof (cases "map_of ctx ''preferences''")
    case None
    with di show ?thesis by (simp add: dietary_field_def labelled_line_def)
  next
    case (Some v)
    with di obtain prefs where v: "v = PDict prefs" and lf: "list_field prefs ''dietary'' di"
      by (auto simp: dietary_field_def split: pyval.splits)
    show ?thesis
    proof (cases "prefs = []")
      case True
      with lf have "di = []" by (simp add: list_field_def)
      with True Some v show ?thesis by (simp add: labelled_line_def)
    next
      case False
      with Some v list_field_get[OF lf] show ?thesis by simp
    qed
  qed
  show "build_system_prompt (PDict ctx)
          = Inr (base_prompt @ rendered_block (rendered_lines hg sy di))"
  proof (cases "ctx = []")
    case True
    with hg sy di show ?thesis
      by (simp add: build_system_prompt_def list_field_def dietary_field_def
          rendered_block_def rendered_lines_def labelled_line_def)
  next
    case False
    then show ?thesis
      unfolding build_system_prompt_def
      by (simp add: list_field_get[OF hg] list_field_get[OF sy] c3
          rendered_block_def rendered_lines_def Let_def)
  qed
qed

theorem build_system_prompt_renders_context_witness:
  "build_system_prompt (PDict [(''health_goals'', PList [PStr ''energy'', PStr ''sleep'']),
       (''symptoms'', PList []),
       (''preferences'', PDict [(''dietary'', PList [PStr ''vegan''])])])
   = Inr (base_prompt @ nl @ nl @ ''Additional context:'' @ nl
          @ ''Health goals: energy, sleep'' @ nl @ ''Dietary preferences: vegan'')"
  using build_system_prompt_renders_context
    [of "[(''health_goals'', PList [PStr ''energy'', PStr ''sleep'']),
       (''symptoms'', PList []),
       (''preferences'', PDict [(''dietary'', PList [PStr ''vegan''])])]"
      "[''energy'', ''sleep'']" "[]" "[''vegan'']"]
  by (simp add: list_field_def dietary_field_def rendered_block_def rendered_lines_def
      labelled_line_def)

section \<open>Session store: properties\<close>

text \<open>
  C8, as stated, fails: a turn whose role is present but empty is accepted by
  \<open>add_message\<close> and appended, since only the presence of the two keys is checked.
\<close>

theorem add_message_accepts_empty_role:
  "fst (add_message (PStr ''s1'') (PDict [(''role'', PStr []), (''content'', PStr ''hi'')])
          MemoryStore) = Inr ()
   \<and> get_messages (PStr ''s1'')
        (snd (add_message (PStr ''s1'') (PDict [(''role'', PStr []), (''content'', PStr ''hi'')])
                MemoryStore))
       = [PDict [(''role'', PStr []), (''content'', PStr ''hi'')]]"
  by (simp add: add_message_def MemoryStore_def get_messages_def Let_def)

text \<open>
  C8, amended: for every \<open>add_message\<close> call offering a message that is not a dict or
  lacks the \<open>role\<close> key or the \<open>content\<close> key, the call fails (with the ValueError of the
  validation, or a TypeError for an unhashable session id), and no turn is appended: the
  turns of every session and the stored contexts are as before.
\<close>

theorem add_message_rejects_missing_keys:
  assumes "\<not> (is_dict message \<and> has_key message ''role'' \<and> has_key message ''content'')"
  shows "fst (add_message session_id message ms)
           = Inl (if hashable session_id then ValueError Message_must_be_dict else TypeError)
         \<and> get_messages sid (snd (add_message session_id message ms)) = get_messages sid ms
         \<and> m_quiz_answers (snd (add_message session_id message ms)) = m_quiz_answers ms"
  using assms by (auto simp: add_message_def Let_def get_messages_def)

theorem add_message_rejects_missing_keys_witness:
  "fst (add_message (PStr ''s1'') (PDict [(''role'', PStr ''user'')]) MemoryStore)
     = Inl (ValueError Message_must_be_dict)
   \<and> get_messages (PStr ''s1'')
        (snd (add_message (PStr ''s1'') (PDict [(''role'', PStr ''user'')]) MemoryStore)) = []"
  using add_message_rejects_missing_keys
    [of "PDict [(''role'', PStr ''user'')]" "PStr ''s1''" MemoryStore "PStr ''s1''"]
  by (simp add: get_messages_def MemoryStore_def)

section \<open>Vector search adapter: properties\<close>

text \<open>
  C5, as stated, fails: the vector size is fetched from the backend with
  \<open>get_collection\<close>, so the mismatch is found after a network call, not before any.
\<close>

theorem query_qdrant_mismatch_after_network_call:
  "fst (query_qdrant (scripted (Inr []) (Inr PNone) (Inr []) (Inr 1536) (Inr []) (Inr []))
          [0.1, 0.2] 3 PNone [])
     = Inl (ValueError (Dimension_mismatch 1536 2))
   \<and> snd (query_qdrant (scripted (Inr []) (Inr PNone) (Inr []) (Inr 1536) (Inr []) (Inr []))
          [0.1, 0.2] 3 PNone [])
     \<noteq> []"
  by (simp add: query_qdrant_def scripted_def Let_def)

text \<open>
  C5, amended: for every search call for which \<open>get_collection\<close> answers with a vector
  size that differs from the length of the query vector, \<open>query_qdrant\<close> fails with the
  dimension-mismatch ValueError after that one call to the backend, and no similarity
  search is executed.
\<close>

theorem query_qdrant_dimension_mismatch:
  assumes "w_get_collection w tr collection_name = Inr collection_dim"
    and "collection_dim \<noteq> length query_vector"
  shows "query_qdrant w query_vector limit filters tr
           = (Inl (ValueError (Dimension_mismatch collection_dim (length query_vector))),
              tr @ [Get_collection collection_name])"
  using assms by (simp add: query_qdrant_def Let_def)

theorem query_qdrant_dimension_mismatch_witness:
  "query_qdrant (scripted (Inr []) (Inr PNone) (Inr []) (Inr 3) (Inr []) (Inr []))
     [0.1, 0.2] 3 PNone []
     = (Inl (ValueError (Dimension_mismatch 3 2)), [Get_collection ''brightside-products''])"
  using query_qdrant_dimension_mismatch
    [of "scripted (Inr []) (Inr PNone) (Inr []) (Inr 3) (Inr []) (Inr [])" "[]" 3
        "[0.1, 0.2]" 3 PNone]
  by (simp add: scripted_def collection_name_def)

section \<open>The retry loop\<close>

declare retrying.simps [simp del]

lemma retrying_3:
  "retrying 3 f tr =
     (case f tr of (Inr r, t) \<Rightarrow> (Inr r, t) | (Inl e, t) \<Rightarrow> (Inl (RetryError e), t))"
  by (subst retrying.simps) (simp split: prod.splits sum.splits)

lemma retrying_2:
  "retrying 2 f tr =
     (case f tr of (Inr r, t) \<Rightarrow> (Inr r, t) | (Inl e, t) \<Rightarrow> retrying 3 f (t @ [Sleep 4]))"
  by (subst retrying.simps) (simp add: wait_exponential_def split: prod.splits sum.splits)

lemma retrying_1:
  "retrying (Suc 0) f tr =
     (case f tr of (Inr r, t) \<Rightarrow> (Inr r, t) | (Inl e, t) \<Rightarrow> retrying 2 f (t @ [Sleep 4]))"
  by (subst retrying.simps)
     (simp add: wait_exponential_def numeral_2_eq_2 split: prod.splits sum.splits)

text \<open>A result of the loop is the result of one of its attempts.\<close>

lemma retrying_Inr:
  "retrying n f tr = (Inr r, tr') \<Longrightarrow> \<exists>t0. f t0 = (Inr r, tr')"
proof (induction n f tr rule: retrying.induct)
  case (1 n f tr)
  show ?case
  proof (cases "f tr")
    case (Pair x t)
    show ?thesis
    proof (cases x)
      case (Inr r0)
      with Pair "1.prems" have "f tr = (Inr r, tr')"
        by (subst (asm) retrying.simps) simp
      then show ?thesis by blast
    next
      case (Inl e)
      with Pair "1.prems" have ge: "\<not> n \<ge> 3"
        and rec: "retrying (Suc n) f (t @ [Sleep (wait_exponential n)]) = (Inr r, tr')"
        by (subst (asm) retrying.simps, simp split: if_splits)+
      from "1.IH"[OF Pair[symmetric] Inl ge rec] show ?thesis .
    qed
  qed
qed

lemmas run_simps = generate_chat_response_def retrying_1 retrying_2 retrying_3
  generate_chat_response_body_def format_messages_def handle_function_call_def
  query_qdrant_def build_filter_def make_response_def should_recommend_def recommend_keywords_def
  scripted_def text_reply_def call_reply_def Let_def strip_def is_space_def lower_def
  lower_char_def collection_name_def DEFAULT_SYSTEM_PROMPT_def

section \<open>Orchestrator: the recommend flag\<close>

lemma str_in_sublist: "str_in kw s = sublist kw s"
  by (induction s) (simp_all add: sublist_Cons_right)

lemma sublist_lower:
  "sublist kw (lower s) = (\<exists>part. sublist part s \<and> lower part = kw)"
  unfolding lower_def
  by (metis map_mono_sublist sublist_map_rightE)

lemma lower_keywords:
  "lower ''recommend'' = ''recommend''" "lower ''suggest'' = ''suggest''"
  "lower ''try'' = ''try''" "lower ''consider'' = ''consider''" "lower ''look at'' = ''look at''"
  by (simp_all add: lower_def lower_char_def)

lemma should_recommend_spec:
  "should_recommend prods s =
     ((\<exists>items. prods = Some items \<and> items \<noteq> [])
      \<or> (\<exists>kw \<in> {''recommend'', ''suggest'', ''try'', ''consider'', ''look at''}.
            ci_substring kw s))"
  by (cases prods)
     (simp_all add: should_recommend_def recommend_keywords_def str_in_sublist sublist_lower
        ci_substring_def lower_keywords)

lemma body_recommend:
  "generate_chat_response_body w m h p tr = (Inr reply, tr') \<Longrightarrow>
     recommend reply = should_recommend (products reply) (content reply)"
  by (auto simp: generate_chat_response_body_def make_response_def Let_def
      split: if_splits sum.splits list.splits option.splits prod.splits)

lemma keyword_match_spec:
  "list_ex (\<lambda>keyword. str_in keyword (lower s)) recommend_keywords =
     (\<exists>kw \<in> {''recommend'', ''suggest'', ''try'', ''consider'', ''look at''}. ci_substring kw s)"
  by (simp add: recommend_keywords_def str_in_sublist sublist_lower ci_substring_def
      lower_keywords)

text \<open>
  A successful attempt, read backwards: the first generation call answered; without a
  function call the reply carries no item list, and with one the item list of the reply
  is the list the tool handler returned in that attempt.
\<close>

lemma body_tool_link:
  assumes "generate_chat_response_body w message chat_history system_prompt t0
             = (Inr reply, tr')"
  shows "\<exists>messages first others.
           format_messages message chat_history system_prompt = Inr messages
           \<and> w_create w t0 messages True = Inr (first # others)
           \<and> (case msg_function_call first of
                 None \<Rightarrow> products reply = None
                   \<and> recommend reply
                       = list_ex (\<lambda>keyword. str_in keyword (lower (content reply)))
                           recommend_keywords
               | Some fc \<Rightarrow>
                   (\<exists>args t2 items.
                      w_eval w (fc_arguments fc) = Inr args
                      \<and> handle_function_call w (fc_name fc) args
                            (t0 @ [Generate messages True]) = (Inr items, t2)
                      \<and> products reply = Some items
                      \<and> recommend reply
                          = (items \<noteq> []
                             \<or> list_ex (\<lambda>keyword. str_in keyword (lower (content reply)))
                                 recommend_keywords)))"
  using assms
  by (auto simp: generate_chat_response_body_def make_response_def should_recommend_def Let_def
      split: if_splits sum.splits list.splits option.splits prod.splits)

text \<open>
  C1: for every reply that \<open>generate_chat_response\<close> produces, the recommend flag is true
  exactly when the tool returned at least one item or the reply text contains one of the
  keywords "recommend", "suggest", "try", "consider", "look at" as a case-insensitive
  substring; it is false when neither holds. The reply comes from an attempt whose first
  generation call answered. If that answer invokes no function, no tool ran, the reply
  has no item list and the flag is the keyword test alone. If it invokes one, the item
  list of the reply is the list that \<open>_handle_function_call\<close> returned in that attempt,
  and the flag is true exactly when that list is non-empty or the keyword test holds.
\<close>

theorem recommend_flag_iff:
  assumes "generate_chat_response w message chat_history system_prompt tr = (Inr reply, tr')"
  shows "recommend reply =
           ((\<exists>items. products reply = Some items \<and> items \<noteq> [])
            \<or> (\<exists>kw \<in> {''recommend'', ''suggest'', ''try'', ''consider'', ''look at''}.
                  ci_substring kw (content reply)))
         \<and> (\<exists>t0 messages first others.
               format_messages message chat_history system_prompt = Inr messages
               \<and> w_create w t0 messages True = Inr (first # others)
               \<and> (case msg_function_call first of
                     None \<Rightarrow> products reply = None
                       \<and> recommend reply =
                           (\<exists>kw \<in> {''recommend'', ''suggest'', ''try'', ''consider'', ''look at''}.
                              ci_substring kw (content reply))
                   | Some fc \<Rightarrow>
                       (\<exists>args t2 items.
                          w_eval w (fc_arguments fc) = Inr args
                          \<and> handle_function_call w (fc_name fc) args
                                (t0 @ [Generate messages True]) = (Inr items, t2)
                          \<and> products reply = Some items
                          \<and> recommend reply =
                              (items \<noteq> []
                               \<or> (\<exists>kw \<in> {''recommend'', ''suggest'', ''try'', ''consider'',
                                            ''look at''}.
                                     ci_substring kw (content reply))))))"
proof -
  from assms obtain t0 where body:
    "generate_chat_response_body w message chat_history system_prompt t0 = (Inr reply, tr')"
    unfolding generate_chat_response_def by (blast dest: retrying_Inr)
  have flag: "recommend reply =
           ((\<exists>items. products reply = Some items \<and> items \<noteq> [])
            \<or> (\<exists>kw \<in> {''recommend'', ''suggest'', ''try'', ''consider'', ''look at''}.
                  ci_substring kw (content reply)))"
    using body by (simp only: body_recommend should_recommend_spec)
  from body_tool_link[OF body] have link: "\<exists>t0 messages first others.
               format_messages message chat_history system_prompt = Inr messages
               \<and> w_create w t0 messages True = Inr (first # others)
               \<and> (case msg_function_call first of
                     None \<Rightarrow> products reply = None
                       \<and> recommend reply =
                           (\<exists>kw \<in> {''recommend'', ''suggest'', ''try'', ''consider'', ''look at''}.
                              ci_substring kw (content reply))
                   | Some fc \<Rightarrow>
                       (\<exists>args t2 items.
                          w_eval w (fc_arguments fc) = Inr args
                          \<and> handle_function_call w (fc_name fc) args
                                (t0 @ [Generate messages True]) = (Inr items, t2)
                          \<and> products reply = Some items
                          \<and> recommend reply =
                              (items \<noteq> []
                               \<or> (\<exists>kw \<in> {''recommend'', ''suggest'', ''try'', ''consider'',
                                            ''look at''}.
                                     ci_substring kw (content reply)))))"
    unfolding keyword_match_spec by blast
  from flag link show ?thesis by (rule conjI)
qed

text \<open>
  A run in which the search finds one product and the final text holds no keyword: the
  reply recommends, and by the theorem the tool handler returned that product.
\<close>

theorem recommend_flag_iff_witness:
  "\<exists>t0 t2.
     handle_function_call
       (scripted (Inr [call_reply ''query_supplements'' ''{'question': 'help with sleep'}''])
          (Inr (PDict [(''question'', PStr ''help with sleep'')])) (Inr [0.1, 0.2]) (Inr 2)
          (Inr [\<lparr>hit_id = PInt 7, hit_score = 0.9,
                  hit_payload = PDict [(''id'', PStr ''p1''), (''title'', PStr ''Magnesium''),
                                       (''price'', PStr ''19.99'')]\<rparr>])
          (Inr [text_reply ''Magnesium may help.'']))
       ''query_supplements'' (PDict [(''question'', PStr ''help with sleep'')])
       (t0 @ [Generate [Role_content (PStr ''system'') (PStr ''Be helpful.''),
                        Role_content (PStr ''user'') (PStr ''I have trouble sleeping'')] True])
     = (Inr [\<lparr>p_id = ''p1'', p_name = PStr ''Magnesium'', p_description = PStr [],
               p_price = PStr ''19.99'', p_currency = ''USD'', p_image_url = PStr [],
               p_product_url = PStr [], p_score = 0.9, p_brand = ''Brightside''\<rparr>], t2)"
proof -
  let ?w = "scripted (Inr [call_reply ''query_supplements'' ''{'question': 'help with sleep'}''])
          (Inr (PDict [(''question'', PStr ''help with sleep'')])) (Inr [0.1, 0.2]) (Inr 2)
          (Inr [\<lparr>hit_id = PInt 7, hit_score = 0.9,
                  hit_payload = PDict [(''id'', PStr ''p1''), (''title'', PStr ''Magnesium''),
                                       (''price'', PStr ''19.99'')]\<rparr>])
          (Inr [text_reply ''Magnesium may help.''])"
  let ?reply = "\<lparr>role = ''assistant'', content = ''Magnesium may help.'', recommend = True,
            products = Some [\<lparr>p_id = ''p1'', p_name = PStr ''Magnesium'',
               p_description = PStr [], p_price = PStr ''19.99'', p_currency = ''USD'',
               p_image_url = PStr [], p_product_url = PStr [], p_score = 0.9,
               p_brand = ''Brightside''\<rparr>],
            function_called = True, function_name = Some ''query_supplements''\<rparr>"
  have "fst (generate_chat_response ?w (PStr ''I have trouble sleeping'') (PList [])
                (PStr ''Be helpful.'') []) = Inr ?reply"
    by (simp add: run_simps to_product_def str_of_def)
  then obtain tr' where run:
    "generate_chat_response ?w (PStr ''I have trouble sleeping'') (PList [])
       (PStr ''Be helpful.'') [] = (Inr ?reply, tr')"
    by (metis prod.collapse)
  from recommend_flag_iff[OF run] show ?thesis
    by (auto simp: format_messages_def scripted_def call_reply_def)
qed

section \<open>Orchestrator: retries\<close>

text \<open>
  C4, as stated, fails: a malformed response (no choice in it) is not raised at once. The
  attempt is repeated, the generation endpoint is called three times, and the caller gets
  a RetryError.
\<close>

theorem malformed_response_is_retried:
  "generate_chat_response
      (scripted (Inr []) (Inr PNone) (Inr []) (Inr 2) (Inr []) (Inr []))
      (PStr ''hi'') (PList []) (PStr ''Be helpful.'') []
    = (Inl (RetryError IndexError),
       [Generate [Role_content (PStr ''system'') (PStr ''Be helpful.''),
                  Role_content (PStr ''user'') (PStr ''hi'')] True,
        Sleep 4,
        Generate [Role_content (PStr ''system'') (PStr ''Be helpful.''),
                  Role_content (PStr ''user'') (PStr ''hi'')] True,
        Sleep 4,
        Generate [Role_content (PStr ''system'') (PStr ''Be helpful.''),
                  Role_content (PStr ''user'') (PStr ''hi'')] True])"
  by (simp add: run_simps)

text \<open>
  C4, amended: the body of \<open>generate_chat_response\<close> as a whole is attempted at most three
  times, with a pause of four seconds after the first and after the second failed
  attempt. The result of the first attempt that succeeds is returned; any exception of an
  attempt, transient or not, leads to the next attempt; when the third attempt fails, a
  RetryError holding its exception goes to the caller.
\<close>

theorem generate_chat_response_three_attempts:
  "generate_chat_response w message chat_history system_prompt tr =
     (case generate_chat_response_body w message chat_history system_prompt tr of
        (Inr r, t1) \<Rightarrow> (Inr r, t1)
      | (Inl e1, t1) \<Rightarrow>
          (case generate_chat_response_body w message chat_history system_prompt
                  (t1 @ [Sleep 4]) of
             (Inr r, t2) \<Rightarrow> (Inr r, t2)
           | (Inl e2, t2) \<Rightarrow>
               (case generate_chat_response_body w message chat_history system_prompt
                       (t2 @ [Sleep 4]) of
                  (Inr r, t3) \<Rightarrow> (Inr r, t3)
                | (Inl e3, t3) \<Rightarrow> (Inl (RetryError e3), t3))))"
  by (simp add: generate_chat_response_def retrying_1 retrying_2 retrying_3
      split: prod.splits sum.splits)

theorem generate_chat_response_three_attempts_witness:
  "generate_chat_response
      ((scripted (Inr []) (Inr PNone) (Inr []) (Inr 2) (Inr []) (Inr []))
         \<lparr>w_create := (\<lambda>tr msgs declared.
             if tr = [] then Inl (ExternalError ''APIConnectionError'')
             else Inr [text_reply ''Hello!''])\<rparr>)
      (PStr ''hi'') (PList []) (PStr ''Be helpful.'') []
    = (Inr \<lparr>role = ''assistant'', content = ''Hello!'', recommend = False, products = None,
             function_called = False, function_name = None\<rparr>,
       [Generate [Role_content (PStr ''system'') (PStr ''Be helpful.''),
                  Role_content (PStr ''user'') (PStr ''hi'')] True,
        Sleep 4,
        Generate [Role_content (PStr ''system'') (PStr ''Be helpful.''),
                  Role_content (PStr ''user'') (PStr ''hi'')] True])"
  using generate_chat_response_three_attempts
    [of "(scripted (Inr []) (Inr PNone) (Inr []) (Inr 2) (Inr []) (Inr []))
         \<lparr>w_create := (\<lambda>tr msgs declared.
             if tr = [] then Inl (ExternalError ''APIConnectionError'')
             else Inr [text_reply ''Hello!''])\<rparr>"
        "PStr ''hi''" "PList []" "PStr ''Be helpful.''" "[]"]
  by (simp add: generate_chat_response_body_def format_messages_def make_response_def
      should_recommend_def recommend_keywords_def scripted_def text_reply_def Let_def
      strip_def is_space_def lower_def lower_char_def)

section \<open>Orchestrator: failures of the tool\<close>

text \<open>
  C2, as stated, fails: when the vector search fails as a whole, the caller of
  \<open>generate_chat_response\<close> gets a reply with an empty item list, not the failure.
\<close>

theorem search_failure_becomes_empty_list:
  "fst (generate_chat_response
      (scripted (Inr [call_reply ''query_supplements'' ''{'question': 'help with sleep'}''])
         (Inr (PDict [(''question'', PStr ''help with sleep'')])) (Inr [0.1, 0.2])
         (Inr 2) (Inl (ExternalError ''ResponseHandlingException''))
         (Inr [text_reply ''Magnesium may help.'']))
      (PStr ''I have trouble sleeping'') (PList []) PNone [])
    = Inr \<lparr>role = ''assistant'', content = ''Magnesium may help.'',
             recommend = False, products = Some [], function_called = True,
             function_name = Some ''query_supplements''\<rparr>"
  by (simp add: run_simps)

text \<open>
  C2, amended: when the tool runs on a question and the embedding call, the collection
  lookup or the vector search fails as a whole, \<open>query_qdrant\<close> raises the failure of the
  backend to the tool handler, and the tool handler catches the failure and returns the
  empty item list.
\<close>

theorem tool_failure_caught_by_handler:
  assumes "py_get function_args ''question'' PNone = Inr question"
    and "truthy question"
    and "w_embed_text w tr question = Inl e
         \<or> (\<exists>qv. w_embed_text w tr question = Inr qv
              \<and> (w_get_collection w (tr @ [Embed question]) collection_name = Inl e
                  \<or> (w_get_collection w (tr @ [Embed question]) collection_name = Inr (length qv)
                      \<and> w_search w (tr @ [Embed question, Get_collection collection_name]) qv 3 None
                          = Inl e)))"
  shows "(\<forall>qv. w_embed_text w tr question = Inr qv \<longrightarrow>
            fst (query_qdrant w qv 3 PNone (tr @ [Embed question])) = Inl e)
         \<and> fst (handle_function_call w ''query_supplements'' function_args tr) = Inr []"
  using assms
  by (auto simp: handle_function_call_def query_qdrant_def build_filter_def Let_def
      split: sum.splits prod.splits)

theorem tool_failure_caught_by_handler_witness:
  "fst (query_qdrant
          (scripted (Inr []) (Inr PNone) (Inr [0.1, 0.2]) (Inr 2)
             (Inl (ExternalError ''ResponseHandlingException'')) (Inr []))
          [0.1, 0.2] 3 PNone [Embed (PStr ''help with sleep'')])
     = Inl (ExternalError ''ResponseHandlingException'')
   \<and> fst (handle_function_call
          (scripted (Inr []) (Inr PNone) (Inr [0.1, 0.2]) (Inr 2)
             (Inl (ExternalError ''ResponseHandlingException'')) (Inr []))
          ''query_supplements'' (PDict [(''question'', PStr ''help with sleep'')]) [])
     = Inr []"
  using tool_failure_caught_by_handler
    [of "PDict [(''question'', PStr ''help with sleep'')]" "PStr ''help with sleep''"
        "scripted (Inr []) (Inr PNone) (Inr [0.1, 0.2]) (Inr 2)
             (Inl (ExternalError ''ResponseHandlingException'')) (Inr [])"
        "[]" "ExternalError ''ResponseHandlingException''"]
  by (simp add: scripted_def)

text \<open>
  C3 on a truncated argument payload and on a payload that is a list: the evaluation of
  the payload, or the read of the question, raises; every attempt fails the same way and
  \<open>generate_chat_response\<close> ends with a RetryError instead of a reply with no items.
\<close>

theorem malformed_arguments_abort:
  "fst (generate_chat_response
      (scripted (Inr [call_reply ''query_supplements'' ''{'question': ''])
         (Inl SyntaxError) (Inr [0.1, 0.2]) (Inr 2) (Inr [])
         (Inr [text_reply ''Magnesium may help.'']))
      (PStr ''I have trouble sleeping'') (PList []) PNone [])
    = Inl (RetryError SyntaxError)
   \<and> fst (generate_chat_response
      (scripted (Inr [call_reply ''query_supplements'' ''['help with sleep']''])
         (Inr (PList [PStr ''help with sleep''])) (Inr [0.1, 0.2]) (Inr 2) (Inr [])
         (Inr [text_reply ''Magnesium may help.'']))
      (PStr ''I have trouble sleeping'') (PList []) PNone [])
    = Inl (RetryError AttributeError)"
  by (simp add: run_simps)



section \<open>Chat route: properties\<close>

lemma base_prompt_nonempty: "base_prompt \<noteq> []"
  by (simp add: base_prompt_def)

lemmas chat_simps = chat_def chat_body_def request_message_def dict_get_def ChatMessage_def
  create_session_def add_message_def store_quiz_answers_def get_messages_def
  get_quiz_answers_def build_system_prompt_def system0_def MemoryStore_def

text \<open>
  The missing-message check comes before the store and the model: a request whose message
  is absent or empty fails with the state as it was. What the caller gets is the 500 of
  the outer handler; the route never raises the 422 of the check itself.
\<close>

lemma chat_missing_message_state_unchanged:
  assumes "request_message kvs = Inr message" and "\<not> truthy message"
  shows "chat w (PDict kvs) s
           = (Inl (HTTPException 500
                     (Error_processing (HTTPException 422 Message_field_required))), s)"
  using assms by (simp add: chat_def chat_body_def Let_def)

lemma chat_never_raises_422: "fst (chat w data s) \<noteq> Inl (HTTPException 422 d)"
  by (simp add: chat_def split: prod.splits sum.splits)

text \<open>
  \<open>generate_chat_response\<close> has no check of its own: called with the empty message it
  sends the empty user turn to the generation model.
\<close>

lemma generate_chat_response_empty_message_calls_model:
  "snd (generate_chat_response
          (scripted (Inr [text_reply ''Hello!'']) (Inr PNone) (Inr []) (Inr 2) (Inr []) (Inr []))
          (PStr []) (PList []) (PStr ''Be helpful.'') [])
     = [Generate [Role_content (PStr ''system'') (PStr ''Be helpful.''),
                  Role_content (PStr ''user'') (PStr [])] True]"
  by (simp add: run_simps)

text \<open>
  C9 on the request bodies \<open>{"message": ""}\<close> and \<open>{}\<close>: the request is rejected before
  any model call and before any access to the session store, and the state is as before,
  but the failure that reaches the caller is not the missing-message error. The 422 that
  the check raises is caught by the route's outer handler, and a 500 that quotes it is
  raised in its place.
\<close>

theorem chat_missing_message_raises_500:
  "chat (scripted (Inr [text_reply ''Hello!'']) (Inr PNone) (Inr []) (Inr 2) (Inr []) (Inr []))
        (PDict [(''message'', PStr [])]) system0
     = (Inl (HTTPException 500 (Error_processing (HTTPException 422 Message_field_required))),
        system0)
   \<and> chat (scripted (Inr [text_reply ''Hello!'']) (Inr PNone) (Inr []) (Inr 2) (Inr []) (Inr []))
        (PDict []) system0
     = (Inl (HTTPException 500 (Error_processing (HTTPException 422 Message_field_required))),
        system0)"
  by (simp add: chat_def chat_body_def request_message_def dict_get_def Let_def)

text \<open>
  C6 on a session with two stored turns and the new message "hi": the route stores the
  new user turn before it reads the history, so the list of the first generation call
  holds the system turn, the prior turns reduced to role and content, and the new user
  turn twice.
\<close>

theorem chat_sends_user_turn_twice:
  "trace (snd (chat
      (scripted (Inr [text_reply ''Hello!'']) (Inr PNone) (Inr []) (Inr 2) (Inr []) (Inr []))
      (PDict [(''message'', PStr ''hi''), (''session_id'', PStr ''s1'')])
      \<lparr>memory = \<lparr>m_store = [PStr ''s1'' \<mapsto>
                    [PDict [(''role'', PStr ''user''), (''content'', PStr ''I sleep badly''),
                            (''timestamp'', PDatetime 0)],
                     PDict [(''role'', PStr ''assistant''), (''content'', PStr ''Since when?''),
                            (''timestamp'', PDatetime 1)]]],
                  m_quiz_answers = Map.empty\<rparr>,
        trace = [], uuid_count = 0, clock = 2\<rparr>))
     = [Generate [Role_content (PStr ''system'') (PStr base_prompt),
                  Role_content (PStr ''user'') (PStr ''I sleep badly''),
                  Role_content (PStr ''assistant'') (PStr ''Since when?''),
                  Role_content (PStr ''user'') (PStr ''hi''),
                  Role_content (PStr ''user'') (PStr ''hi'')] True]"
  by (simp add: chat_simps run_simps history_entry_def base_prompt_nonempty)

end
